theory Spec2Isabelle
  imports Complex_Main
begin

section \<open>Column statistics of a CSV file: main.py\<close>

text \<open>
  The program reads one column of a CSV file through the Polars query engine and prints
  five statistics of it. Its own code is \<^verbatim>\<open>process_csv\<close>, which makes three calls
  into the engine, turns the exceptions of the first two into three error types and
  copies the engine's result row into a \<^verbatim>\<open>SelectedStats\<close>, and \<^verbatim>\<open>main\<close>, which
  prints the result or the error. The engine is a library, so \<^verbatim>\<open>process_csv\<close> takes
  it as a parameter; the second half of the theory gives a model of the engine's
  behaviour on which the statements about the statistics themselves are settled.
\<close>

subsection \<open>Python values\<close>

text \<open>
  A Python \<^verbatim>\<open>float\<close>: a finite double, written as the rational it denotes, an
  infinity or NaN. Negative zero is not told apart from zero.
\<close>

datatype float64 = Finite rat | PosInf | NegInf | NaN

text \<open>Python's \<^verbatim>\<open><=\<close> on floats; every comparison with NaN is false.\<close>

fun le_f64 :: "float64 \<Rightarrow> float64 \<Rightarrow> bool" where
  "le_f64 (Finite a) (Finite b) = (a \<le> b)"
| "le_f64 NaN y = False"
| "le_f64 x NaN = False"
| "le_f64 NegInf y = True"
| "le_f64 x PosInf = True"
| "le_f64 x y = False"

text \<open>
  The exceptions that can reach \<^verbatim>\<open>process_csv\<close> and \<^verbatim>\<open>main\<close>, by class, each
  with its message \<^verbatim>\<open>str(e)\<close>. All of them derive from \<^verbatim>\<open>Exception\<close>.
  \<open>ColumnNotFoundError\<close> and \<open>OutOfBoundsError\<close> are the engine's own classes of these
  names; \<open>OtherException\<close> stands for every other class that none of the \<^verbatim>\<open>except\<close>
  clauses of the program names (the engine's \<^verbatim>\<open>ComputeError\<close>, \<^verbatim>\<open>DuplicateError\<close>
  and \<^verbatim>\<open>InvalidOperationError\<close>, ...).
\<close>

datatype exception_class =
  FileNotFoundError | ValueError | RuntimeError | ColumnNotFoundError | OutOfBoundsError
  | OtherException

type_synonym exn = "exception_class \<times> string"

abbreviation squote :: char where
  "squote \<equiv> CHR 0x27"

abbreviation newline :: char where
  "newline \<equiv> CHR 0x0A"

subsection \<open>The data class and the engine's interface\<close>

text \<open>
  \<^verbatim>\<open>SelectedStats\<close> (lines 10-18). The fields \<^verbatim>\<open>min\<close>, \<^verbatim>\<open>max\<close> and \<^verbatim>\<open>sum\<close>
  carry the suffix \<open>_val\<close>, their names being constants of HOL.
\<close>

record SelectedStats =
  count :: int
  min_val :: "float64 option"
  max_val :: "float64 option"
  sum_val :: "float64 option"
  mean :: "float64 option"

text \<open>
  A row of the data frame that the query returns, as the dictionary that
  \<^verbatim>\<open>row(0, named=True)\<close> gives, with its keys \<^verbatim>\<open>count\<close>, \<^verbatim>\<open>min\<close>, \<^verbatim>\<open>max\<close>,
  \<^verbatim>\<open>sum\<close> and \<^verbatim>\<open>mean\<close>.
\<close>

record stats_row =
  row_count :: int
  row_min :: "float64 option"
  row_max :: "float64 option"
  row_sum :: "float64 option"
  row_mean :: "float64 option"

text \<open>
  The three calls into the engine, over the engine's types \<open>'lf\<close> of lazy frames and
  \<open>'df\<close> of data frames. \<open>scan_csv pl file_path\<close> is \<^verbatim>\<open>pl.scan_csv(file_path)\<close> of line
  31. \<open>select_collect pl lf column_name\<close> is \<^verbatim>\<open>lf.select(aggregations).collect()\<close> of
  line 50 for the five aggregations of lines 39-45 over \<^verbatim>\<open>pl.col(column_name)\<close>: the
  count of the column, and the minimum, maximum, sum and mean of the column cast to
  \<^verbatim>\<open>Float64\<close>. \<open>row_named pl stats_df i\<close> is \<^verbatim>\<open>stats_df.row(i, named=True)\<close> of line
  58. Each call returns or raises.
\<close>

record ('lf, 'df) polars =
  scan_csv :: "string \<Rightarrow> exn + 'lf"
  select_collect :: "'lf \<Rightarrow> string \<Rightarrow> exn + 'df"
  row_named :: "'df \<Rightarrow> nat \<Rightarrow> exn + stats_row"

subsection \<open>process_csv\<close>

text \<open>
  Lines 21-67. An exception of the scan is re-raised as \<^verbatim>\<open>FileNotFoundError\<close> when it is
  one, and as \<^verbatim>\<open>RuntimeError\<close> otherwise; an exception of the query as \<^verbatim>\<open>ValueError\<close>
  when it is the engine's \<^verbatim>\<open>ColumnNotFoundError\<close>, and as \<^verbatim>\<open>RuntimeError\<close> otherwise.
  The call of line 58 stands after both \<^verbatim>\<open>try\<close> blocks: what it raises leaves
  \<^verbatim>\<open>process_csv\<close> as it is. \<open>Inl\<close> is a raised exception, \<open>Inr\<close> the returned
  \<^verbatim>\<open>SelectedStats\<close>.
\<close>

definition process_csv ::
  "('lf, 'df) polars \<Rightarrow> string \<Rightarrow> string \<Rightarrow> exn + SelectedStats" where
  "process_csv pl file_path column_name =
     (case scan_csv pl file_path of
        Inl e \<Rightarrow>
          if fst e = FileNotFoundError
          then Inl (FileNotFoundError,
                 ''Error: The file '' @ [squote] @ file_path @ [squote] @ '' was not found.'')
          else Inl (RuntimeError, ''Error reading CSV file: '' @ snd e)
      | Inr lf \<Rightarrow>
          (case select_collect pl lf column_name of
             Inl e \<Rightarrow>
               if fst e = ColumnNotFoundError
               then Inl (ValueError,
                      ''Error: Column '' @ [squote] @ column_name @ [squote]
                        @ '' not found in the file.'')
               else Inl (RuntimeError, ''Error processing data with Polars: '' @ snd e)
           | Inr stats_df \<Rightarrow>
               (case row_named pl stats_df 0 of
                  Inl e \<Rightarrow> Inl e
                | Inr stats_dict \<Rightarrow>
                    Inr \<lparr>count = row_count stats_dict,
                         min_val = row_min stats_dict,
                         max_val = row_max stats_dict,
                         sum_val = row_sum stats_dict,
                         mean = row_mean stats_dict\<rparr>)))"

subsection \<open>Formatting\<close>

text \<open>
  \<^verbatim>\<open>str\<close> of a Python integer: its decimal digits, with a minus sign when negative.
\<close>

definition digit_char :: "nat \<Rightarrow> char" where
  "digit_char d = ''0123456789'' ! d"

fun show_nat :: "nat \<Rightarrow> string" where
  "show_nat n = (if n < 10 then [digit_char n] else show_nat (n div 10) @ [digit_char (n mod 10)])"

declare show_nat.simps [simp del]

definition str_int :: "int \<Rightarrow> string" where
  "str_int i = (if i < 0 then ''-'' @ show_nat (nat (- i)) else show_nat (nat i))"

text \<open>
  The format specification \<^verbatim>\<open>.4f\<close> on a float. A finite value is rounded to four
  decimals, a tie to the even neighbour, and written with its sign, its integer digits, a
  point and four digits; the infinities and NaN are written as words.
\<close>

definition round_half_even :: "rat \<Rightarrow> int" where
  "round_half_even q =
     (let f = \<lfloor>q\<rfloor>; d = q - of_int f
      in if d < 1 / 2 then f else if 1 / 2 < d then f + 1 else if even f then f else f + 1)"

definition frac4 :: "nat \<Rightarrow> string" where
  "frac4 m =
     [digit_char (m div 1000 mod 10), digit_char (m div 100 mod 10),
      digit_char (m div 10 mod 10), digit_char (m mod 10)]"

fun format_4f :: "float64 \<Rightarrow> string" where
  "format_4f (Finite q) =
     (let n = nat (round_half_even (\<bar>q\<bar> * 10000))
      in (if q < 0 then ''-'' else []) @ show_nat (n div 10000) @ ''.'' @ frac4 (n mod 10000))"
| "format_4f PosInf = ''inf''"
| "format_4f NegInf = ''-inf''"
| "format_4f NaN = ''nan''"

text \<open>Lines 97-98, the helper inside \<^verbatim>\<open>main\<close>.\<close>

definition format_opt :: "float64 option \<Rightarrow> string" where
  "format_opt val = (case val of Some v \<Rightarrow> format_4f v | None \<Rightarrow> ''N/A'')"

subsection \<open>main\<close>

text \<open>
  A stream is the text written to it so far; \<^verbatim>\<open>print\<close> appends its argument and a
  line break.
\<close>

definition print :: "string \<Rightarrow> string \<Rightarrow> string" where
  "print s out = out @ s @ [newline]"

text \<open>
  How a run ends: the exit status with the text on standard output and on standard
  error, or an exception that no \<^verbatim>\<open>except\<close> clause of \<^verbatim>\<open>main\<close> catches and that
  the interpreter reports with a traceback.
\<close>

datatype outcome = Exited nat string string | Unhandled exn

text \<open>
  Lines 70-111, after the parsing of the command line: \<open>file_path\<close> is the value of
  \<^verbatim>\<open>-f\<close>, \<open>column_opt\<close> the value of \<^verbatim>\<open>-c\<close> when it was given. The call of
  \<^verbatim>\<open>process_csv\<close> comes before the first \<^verbatim>\<open>print\<close>; an error of one of the three
  classes of line 109 is printed on standard error and ends the run with status 1, an
  error of any other class is not caught.
\<close>

definition main :: "('lf, 'df) polars \<Rightarrow> string \<Rightarrow> string option \<Rightarrow> outcome" where
  "main pl file_path column_opt =
     (let column_name = (case column_opt of Some c \<Rightarrow> c | None \<Rightarrow> ''Amount Received'')
      in case process_csv pl file_path column_name of
           Inr stats \<Rightarrow>
             (let out = print ''Output for python-polars'' [];
                  out = print (''--- Statistics for '' @ [squote] @ column_name @ [squote]
                                 @ '' ---'') out;
                  out = print (''Count: '' @ str_int (count stats)) out;
                  out = print (''Min:   '' @ format_opt (min_val stats)) out;
                  out = print (''Max:   '' @ format_opt (max_val stats)) out;
                  out = print (''Sum:   '' @ format_opt (sum_val stats)) out;
                  out = print (''Mean:  '' @ format_opt (mean stats)) out
              in Exited 0 out [])
         | Inl e \<Rightarrow>
             if fst e = FileNotFoundError \<or> fst e = ValueError \<or> fst e = RuntimeError
             then Exited 1 [] (print (snd e) [])
             else Unhandled e)"

section \<open>A model of the query engine\<close>

text \<open>
  What the statistics are is decided inside the engine. The model below follows the
  engine's documentation for the calls that \<^verbatim>\<open>process_csv\<close> makes, at the level of a
  parsed table: the text of the CSV file, its splitting into cells and the inference of
  the column types are not modelled.
\<close>

subsection \<open>Tables and files\<close>

text \<open>
  A raw cell of a column, by what the cast to \<^verbatim>\<open>Float64\<close> makes of it: \<open>Null\<close> is a
  missing value, which every cast keeps; \<open>Num v\<close> is a value that is not null and that the
  cast turns into the float \<open>v\<close> (a number, or a string that reads as one); \<open>Text s\<close> is a
  value that is not null and that the cast cannot convert, such as the string \<^verbatim>\<open>abc\<close>.
\<close>

datatype cell = Null | Num float64 | Text string

text \<open>A table: its columns in the order of the header, each with its name.\<close>

type_synonym frame = "(string \<times> cell list) list"

text \<open>What a path leads to: nothing, or a CSV file with the table the engine reads from it.\<close>

datatype file_entry = NoFile | Table frame

subsection \<open>What stays a parameter\<close>

text \<open>
  The failures of the engine whose message text is the engine's own: a strict cast that
  met a value it cannot convert (in the named column), an output name that two
  expressions share, a row index beyond the last row, a column name that the table does
  not have.
\<close>

datatype engine_failure =
  FailedCast string | DuplicateOutput string | NoSuchRow nat | UnknownColumn string

text \<open>
  What the engine computes or words by itself: its reductions of a non-empty list of
  \<^verbatim>\<open>Float64\<close> values, whose arithmetic is floating-point code of the engine; the value of
  \<^verbatim>\<open>sum\<close> over no value at all (null in older releases of the engine, \<open>0.0\<close> by its
  current documentation); whether a regular expression matches a column name; and the
  text of its messages.
\<close>

record kernels =
  f_min :: "float64 list \<Rightarrow> float64"
  f_max :: "float64 list \<Rightarrow> float64"
  f_sum :: "float64 list \<Rightarrow> float64"
  f_mean :: "float64 list \<Rightarrow> float64"
  empty_sum :: "float64 option"
  regex_match :: "string \<Rightarrow> string \<Rightarrow> bool"
  failure_text :: "engine_failure \<Rightarrow> string"

subsection \<open>Expressions\<close>

text \<open>
  \<^verbatim>\<open>pl.col(column_name)\<close>. The argument is a pattern: \<^verbatim>\<open>*\<close> stands for every column,
  a text that begins with \<^verbatim>\<open>^\<close> and ends with \<^verbatim>\<open>$\<close> is a regular expression and stands
  for the columns whose names it matches, and every other text is the name of one
  column, which the table must have.
\<close>

definition is_regex :: "string \<Rightarrow> bool" where
  "is_regex name = (name \<noteq> [] \<and> hd name = CHR ''^'' \<and> last name = CHR ''$'')"

definition plain_name :: "string \<Rightarrow> bool" where
  "plain_name name = (name \<noteq> ''*'' \<and> \<not> is_regex name)"

definition select_columns :: "kernels \<Rightarrow> frame \<Rightarrow> string \<Rightarrow> exn + cell list list" where
  "select_columns k df column_name =
     (if column_name = ''*'' then Inr (map snd df)
      else if is_regex column_name
        then Inr (map snd (filter (\<lambda>c. regex_match k column_name (fst c)) df))
      else (case map_of df column_name of
              None \<Rightarrow> Inl (ColumnNotFoundError, failure_text k (UnknownColumn column_name))
            | Some col \<Rightarrow> Inr [col]))"

text \<open>
  \<^verbatim>\<open>count()\<close>: the number of elements of the column that are not null.
\<close>

definition agg_count :: "cell list \<Rightarrow> int" where
  "agg_count col = int (length (filter (\<lambda>x. x \<noteq> Null) col))"

text \<open>
  \<^verbatim>\<open>cast(pl.Float64)\<close>. The cast is strict unless \<^verbatim>\<open>strict=False\<close> is passed, and
  lines 41-44 pass nothing: a value that is not null and cannot be converted makes the
  query fail (\<open>None\<close> here) instead of becoming null.
\<close>

fun is_text :: "cell \<Rightarrow> bool" where
  "is_text (Text s) = True"
| "is_text x = False"

fun cast_cell :: "cell \<Rightarrow> float64 option" where
  "cast_cell (Num v) = Some v"
| "cast_cell x = None"

definition cast_float64 :: "cell list \<Rightarrow> float64 option list option" where
  "cast_float64 col = (if list_ex is_text col then None else Some (map cast_cell col))"

text \<open>
  \<^verbatim>\<open>min\<close>, \<^verbatim>\<open>max\<close>, \<^verbatim>\<open>sum\<close> and \<^verbatim>\<open>mean\<close> of a \<^verbatim>\<open>Float64\<close> column skip its
  nulls; \<^verbatim>\<open>min\<close>, \<^verbatim>\<open>max\<close> and \<^verbatim>\<open>mean\<close> are null when nothing is left.
\<close>

definition drop_nulls :: "'a option list \<Rightarrow> 'a list" where
  "drop_nulls xs = concat (map (\<lambda>x. case x of Some v \<Rightarrow> [v] | None \<Rightarrow> []) xs)"

definition agg_min :: "kernels \<Rightarrow> float64 option list \<Rightarrow> float64 option" where
  "agg_min k xs = (if drop_nulls xs = [] then None else Some (f_min k (drop_nulls xs)))"

definition agg_max :: "kernels \<Rightarrow> float64 option list \<Rightarrow> float64 option" where
  "agg_max k xs = (if drop_nulls xs = [] then None else Some (f_max k (drop_nulls xs)))"

definition agg_sum :: "kernels \<Rightarrow> float64 option list \<Rightarrow> float64 option" where
  "agg_sum k xs = (if drop_nulls xs = [] then empty_sum k else Some (f_sum k (drop_nulls xs)))"

definition agg_mean :: "kernels \<Rightarrow> float64 option list \<Rightarrow> float64 option" where
  "agg_mean k xs = (if drop_nulls xs = [] then None else Some (f_mean k (drop_nulls xs)))"

text \<open>
  The values that the statistics of a column are taken over: what the cast makes of its
  cells, without the nulls, in the order of the rows.
\<close>

definition numeric_values :: "cell list \<Rightarrow> float64 list" where
  "numeric_values col = drop_nulls (map cast_cell col)"

text \<open>
  The five aggregations of lines 39-45 over the selected columns, as a data frame (the
  list of its rows). Over one column they give one row. Over no column they give no
  expression at all and a frame without a row. Over several columns each alias would
  name several outputs, which the engine refuses.
\<close>

definition aggregate :: "kernels \<Rightarrow> string \<Rightarrow> cell list list \<Rightarrow> exn + stats_row list" where
  "aggregate k column_name cols =
     (case cols of
        [] \<Rightarrow> Inr []
      | [col] \<Rightarrow>
          (case cast_float64 col of
             None \<Rightarrow> Inl (OtherException, failure_text k (FailedCast column_name))
           | Some xs \<Rightarrow>
               Inr [\<lparr>row_count = agg_count col,
                     row_min = agg_min k xs,
                     row_max = agg_max k xs,
                     row_sum = agg_sum k xs,
                     row_mean = agg_mean k xs\<rparr>])
      | col # others \<Rightarrow> Inl (OtherException, failure_text k (DuplicateOutput ''count'')))"

subsection \<open>The three calls\<close>

text \<open>
  \<^verbatim>\<open>pl.scan_csv\<close> is lazy, as the comment of lines 28-29 says: it sets up the plan,
  here the path, and does not open the file.
\<close>

definition polars_scan_csv :: "string \<Rightarrow> exn + string" where
  "polars_scan_csv file_path = Inr file_path"

text \<open>
  \<^verbatim>\<open>select(aggregations).collect()\<close> on a file system \<open>fs\<close> runs the plan: it opens the
  file, where a missing file raises \<^verbatim>\<open>FileNotFoundError\<close> with the message of the
  operating system, selects the columns and aggregates them.
\<close>

definition polars_select_collect ::
  "(string \<Rightarrow> file_entry) \<Rightarrow> kernels \<Rightarrow> string \<Rightarrow> string \<Rightarrow> exn + stats_row list" where
  "polars_select_collect fs k lf column_name =
     (case fs lf of
        NoFile \<Rightarrow> Inl (FileNotFoundError, ''No such file or directory (os error 2): '' @ lf)
      | Table df \<Rightarrow>
          (case select_columns k df column_name of
             Inl e \<Rightarrow> Inl e
           | Inr cols \<Rightarrow> aggregate k column_name cols))"

text \<open>
  \<^verbatim>\<open>row(i, named=True)\<close>: the row of that index, or \<^verbatim>\<open>OutOfBoundsError\<close> when the
  frame has no such row.
\<close>

definition polars_row_named :: "kernels \<Rightarrow> stats_row list \<Rightarrow> nat \<Rightarrow> exn + stats_row" where
  "polars_row_named k stats_df i =
     (if i < length stats_df then Inr (stats_df ! i)
      else Inl (OutOfBoundsError, failure_text k (NoSuchRow i)))"

definition polars_engine ::
  "(string \<Rightarrow> file_entry) \<Rightarrow> kernels \<Rightarrow> (string, stats_row list) polars" where
  "polars_engine fs k =
     \<lparr>scan_csv = polars_scan_csv,
      select_collect = polars_select_collect fs k,
      row_named = polars_row_named k\<rparr>"

section \<open>Properties of rendered text\<close>

definition is_digit :: "char \<Rightarrow> bool" where
  "is_digit c = (c \<in> set ''0123456789'')"

text \<open>A plain integer: decimal digits, at least one, after an optional minus sign.\<close>

definition is_plain_integer :: "string \<Rightarrow> bool" where
  "is_plain_integer s =
     (case s of
        [] \<Rightarrow> False
      | c # cs \<Rightarrow> if c = CHR ''-'' then cs \<noteq> [] \<and> list_all is_digit cs
                  else list_all is_digit (c # cs))"

text \<open>
  A number with exactly four digits after its decimal point: a plain integer, a point,
  and four digits to the end of the text.
\<close>

definition four_decimals :: "string \<Rightarrow> bool" where
  "four_decimals s =
     (let n = length s
      in 5 < n \<and> is_plain_integer (take (n - 5) s) \<and> s ! (n - 5) = CHR ''.''
           \<and> list_all is_digit (drop (n - 4) s))"

text \<open>
  What the rendering of an optional float has to look like: the token \<^verbatim>\<open>N/A\<close> for an
  absent value, exactly four digits after the point for a finite one, and the words that
  \<^verbatim>\<open>.4f\<close> writes for the values that are not finite.
\<close>

definition well_rendered :: "float64 option \<Rightarrow> string \<Rightarrow> bool" where
  "well_rendered val s =
     (case val of
        None \<Rightarrow> s = ''N/A''
      | Some (Finite q) \<Rightarrow> four_decimals s
      | Some PosInf \<Rightarrow> s = ''inf''
      | Some NegInf \<Rightarrow> s = ''-inf''
      | Some NaN \<Rightarrow> s = ''nan'')"

text \<open>
  The seven lines of a successful run, as section 6 of the specification lays them out:
  two title lines, the count, and the four floats through \<^verbatim>\<open>format_opt\<close>.
\<close>

definition report :: "string \<Rightarrow> SelectedStats \<Rightarrow> string" where
  "report column_name stats =
     ''Output for python-polars'' @ [newline]
     @ ''--- Statistics for '' @ [squote] @ column_name @ [squote] @ '' ---'' @ [newline]
     @ ''Count: '' @ str_int (count stats) @ [newline]
     @ ''Min:   '' @ format_opt (min_val stats) @ [newline]
     @ ''Max:   '' @ format_opt (max_val stats) @ [newline]
     @ ''Sum:   '' @ format_opt (sum_val stats) @ [newline]
     @ ''Mean:  '' @ format_opt (mean stats) @ [newline]"

text \<open>A single line: text without a line break, closed by one.\<close>

definition single_line :: "string \<Rightarrow> bool" where
  "single_line s = (s \<noteq> [] \<and> last s = newline \<and> newline \<notin> set (butlast s))"

section \<open>Concrete inputs\<close>

text \<open>
  Reductions that compute without rounding, with the usual conventions for the
  infinities and NaN. They agree with double arithmetic wherever the doubles involved
  add and divide exactly, as the small numbers of the examples below do, and serve to
  instantiate the parameter \<open>kernels\<close> there.
\<close>

fun less_f64 :: "float64 \<Rightarrow> float64 \<Rightarrow> bool" where
  "less_f64 (Finite a) (Finite b) = (a < b)"
| "less_f64 (Finite a) PosInf = True"
| "less_f64 NegInf (Finite b) = True"
| "less_f64 NegInf PosInf = True"
| "less_f64 x y = False"

fun add_f64 :: "float64 \<Rightarrow> float64 \<Rightarrow> float64" where
  "add_f64 (Finite a) (Finite b) = Finite (a + b)"
| "add_f64 NaN y = NaN"
| "add_f64 x NaN = NaN"
| "add_f64 PosInf NegInf = NaN"
| "add_f64 NegInf PosInf = NaN"
| "add_f64 PosInf y = PosInf"
| "add_f64 x PosInf = PosInf"
| "add_f64 NegInf y = NegInf"
| "add_f64 x NegInf = NegInf"

fun div_f64 :: "float64 \<Rightarrow> nat \<Rightarrow> float64" where
  "div_f64 (Finite a) n = Finite (a / of_nat n)"
| "div_f64 x n = x"

text \<open>
  The least and the greatest value pass over NaN, unless there is nothing else; the sum
  adds from left to right, and the mean divides it by the number of values.
\<close>

definition least_f64 :: "float64 list \<Rightarrow> float64" where
  "least_f64 xs =
     (case filter (\<lambda>x. x \<noteq> NaN) xs of
        [] \<Rightarrow> NaN
      | y # ys \<Rightarrow> fold (\<lambda>x m. if less_f64 x m then x else m) ys y)"

definition greatest_f64 :: "float64 list \<Rightarrow> float64" where
  "greatest_f64 xs =
     (case filter (\<lambda>x. x \<noteq> NaN) xs of
        [] \<Rightarrow> NaN
      | y # ys \<Rightarrow> fold (\<lambda>x m. if less_f64 m x then x else m) ys y)"

definition total_f64 :: "float64 list \<Rightarrow> float64" where
  "total_f64 xs = (case xs of [] \<Rightarrow> Finite 0 | y # ys \<Rightarrow> fold (\<lambda>x s. add_f64 s x) ys y)"

text \<open>
  A matching of regular expressions that is right for an expression whose body, between
  \<^verbatim>\<open>^\<close> and \<^verbatim>\<open>$\<close>, holds letters only: it matches the name that is its body and no
  other. The message texts stand in for the engine's, which change with its releases.
\<close>

definition literal_match :: "string \<Rightarrow> string \<Rightarrow> bool" where
  "literal_match pattern name = (pattern = ''^'' @ name @ ''$'')"

fun stand_in_text :: "engine_failure \<Rightarrow> string" where
  "stand_in_text (FailedCast c) = ''conversion from str to f64 failed in column '' @ c"
| "stand_in_text (DuplicateOutput n) = ''the name '' @ n @ '' is duplicate''"
| "stand_in_text (NoSuchRow i) = ''row index is out of bounds''"
| "stand_in_text (UnknownColumn c) = ''unable to find column '' @ c"

definition exact_kernels :: kernels where
  "exact_kernels =
     \<lparr>f_min = least_f64,
      f_max = greatest_f64,
      f_sum = total_f64,
      f_mean = (\<lambda>xs. div_f64 (total_f64 xs) (length xs)),
      empty_sum = Some (Finite 0),
      regex_match = literal_match,
      failure_text = stand_in_text\<rparr>"

text \<open>
  A file system with the example files of the specification as the engine reads them
  (\<^verbatim>\<open>numbers.csv\<close> for the text \<^verbatim>\<open>amount\n10\n20\n30\n\<close>, \<^verbatim>\<open>mixed.csv\<close> for
  \<^verbatim>\<open>amount\n10\nabc\n30\n\<close>, \<^verbatim>\<open>blank.csv\<close> for \<^verbatim>\<open>amount\n\n\n\<close>), a column that
  holds an infinity and one that holds a NaN. Every other path leads to nothing.
\<close>

definition example_fs :: "string \<Rightarrow> file_entry" where
  "example_fs path =
     (if path = ''numbers.csv''
        then Table [(''amount'', [Num (Finite 10), Num (Finite 20), Num (Finite 30)])]
      else if path = ''mixed.csv''
        then Table [(''amount'', [Num (Finite 10), Text ''abc'', Num (Finite 30)])]
      else if path = ''blank.csv'' then Table [(''amount'', [Null, Null])]
      else if path = ''inf.csv'' then Table [(''amount'', [Num (Finite 1), Num PosInf])]
      else if path = ''nan.csv'' then Table [(''amount'', [Num NaN, Num (Finite 1)])]
      else NoFile)"

section \<open>The exceptions of process_csv\<close>

lemma process_csv_scan_error:
  "scan_csv pl file_path = Inl (c, m) \<Longrightarrow>
   process_csv pl file_path column_name =
     (if c = FileNotFoundError
      then Inl (FileNotFoundError,
             ''Error: The file '' @ [squote] @ file_path @ [squote] @ '' was not found.'')
      else Inl (RuntimeError, ''Error reading CSV file: '' @ m))"
  by (simp add: process_csv_def)

lemma process_csv_query_error:
  "scan_csv pl file_path = Inr lf \<Longrightarrow> select_collect pl lf column_name = Inl (c, m) \<Longrightarrow>
   process_csv pl file_path column_name =
     (if c = ColumnNotFoundError
      then Inl (ValueError,
             ''Error: Column '' @ [squote] @ column_name @ [squote] @ '' not found in the file.'')
      else Inl (RuntimeError, ''Error processing data with Polars: '' @ m))"
  by (simp add: process_csv_def)

lemma process_csv_row_error:
  "scan_csv pl file_path = Inr lf \<Longrightarrow> select_collect pl lf column_name = Inr stats_df \<Longrightarrow>
   row_named pl stats_df 0 = Inl e \<Longrightarrow>
   process_csv pl file_path column_name = Inl e"
  by (simp add: process_csv_def)

lemma process_csv_returns:
  "scan_csv pl file_path = Inr lf \<Longrightarrow> select_collect pl lf column_name = Inr stats_df \<Longrightarrow>
   row_named pl stats_df 0 = Inr r \<Longrightarrow>
   process_csv pl file_path column_name =
     Inr \<lparr>count = row_count r, min_val = row_min r, max_val = row_max r,
          sum_val = row_sum r, mean = row_mean r\<rparr>"
  by (simp add: process_csv_def)

text \<open>
  Whatever the engine does, an exception of \<^verbatim>\<open>process_csv\<close> is of one of its three
  classes, or it is the exception that the call of line 58 raised.
\<close>

lemma process_csv_raises_cases:
  assumes "process_csv pl file_path column_name = Inl e"
  shows "fst e = FileNotFoundError \<or> fst e = ValueError \<or> fst e = RuntimeError
    \<or> (\<exists>lf stats_df. scan_csv pl file_path = Inr lf
          \<and> select_collect pl lf column_name = Inr stats_df
          \<and> row_named pl stats_df 0 = Inl e)"
  using assms
  by (auto simp: process_csv_def split: sum.splits if_splits)

lemmas engine_defs =
  polars_engine_def polars_scan_csv_def polars_select_collect_def polars_row_named_def
  select_columns_def aggregate_def is_regex_def plain_name_def cast_float64_def
  agg_count_def agg_min_def agg_max_def agg_sum_def agg_mean_def drop_nulls_def

lemmas kernel_defs =
  exact_kernels_def least_f64_def greatest_f64_def total_f64_def literal_match_def

lemma scan_is_lazy: "scan_csv (polars_engine fs k) file_path = Inr file_path"
  by (simp add: polars_engine_def polars_scan_csv_def)

lemma row_of_engine:
  "row_named (polars_engine fs k) stats_df 0 =
     (case stats_df of [] \<Rightarrow> Inl (OutOfBoundsError, failure_text k (NoSuchRow 0))
      | r # rs \<Rightarrow> Inr r)"
  by (simp add: polars_engine_def polars_row_named_def split: list.splits)

lemma plain_name_query:
  assumes "fs file_path = Table df" and "plain_name column_name"
  shows "select_collect (polars_engine fs k) file_path column_name =
     (case map_of df column_name of
        None \<Rightarrow> Inl (ColumnNotFoundError, failure_text k (UnknownColumn column_name))
      | Some col \<Rightarrow> aggregate k column_name [col])"
  using assms
  by (simp add: polars_engine_def polars_select_collect_def select_columns_def plain_name_def
      split: option.splits)

text \<open>
  C9 does not hold of the code. The call \<^verbatim>\<open>stats_df.row(0, named=True)\<close> of line 58
  stands after both \<^verbatim>\<open>try\<close> blocks, and the comments of lines 49 and 56 take the frame
  to have one row. For the column name \<^verbatim>\<open>^zzz$\<close> on the file \<^verbatim>\<open>numbers.csv\<close> the
  pattern selects no column, the query returns a frame without a row, and
  \<^verbatim>\<open>process_csv\<close> raises the engine's \<^verbatim>\<open>OutOfBoundsError\<close> as it is: a fourth class,
  which \<^verbatim>\<open>main\<close> does not catch.
\<close>

theorem unwrapped_row_error:
  "example_fs ''numbers.csv''
     = Table [(''amount'', [Num (Finite 10), Num (Finite 20), Num (Finite 30)])]
   \<and> select_collect (polars_engine example_fs exact_kernels) ''numbers.csv'' ''^zzz$'' = Inr []
   \<and> process_csv (polars_engine example_fs exact_kernels) ''numbers.csv'' ''^zzz$''
       = Inl (OutOfBoundsError, failure_text exact_kernels (NoSuchRow 0))
   \<and> main (polars_engine example_fs exact_kernels) ''numbers.csv'' (Some ''^zzz$'')
       = Unhandled (OutOfBoundsError, failure_text exact_kernels (NoSuchRow 0))"
  by (simp add: main_def process_csv_def engine_defs example_fs_def kernel_defs)

section \<open>A missing column\<close>

text \<open>
  For a plain name, one that is neither \<^verbatim>\<open>*\<close> nor of the form \<^verbatim>\<open>^...$\<close>, and a file
  that holds a table, \<^verbatim>\<open>process_csv\<close> raises its \<^verbatim>\<open>ValueError\<close> exactly when no
  column of the header has the name.
\<close>

lemma column_not_found_iff_plain:
  assumes "fs file_path = Table df" and "plain_name column_name"
  shows "(process_csv (polars_engine fs k) file_path column_name
           = Inl (ValueError,
               ''Error: Column '' @ [squote] @ column_name @ [squote] @ '' not found in the file.''))
           = (column_name \<notin> fst ` set df)"
proof (cases "map_of df column_name")
  case None
  then have "column_name \<notin> fst ` set df"
    by (simp add: map_of_eq_None_iff)
  moreover from plain_name_query [where fs = fs and file_path = file_path and k = k, OF assms] None
  have "process_csv (polars_engine fs k) file_path column_name
          = Inl (ValueError,
              ''Error: Column '' @ [squote] @ column_name @ [squote] @ '' not found in the file.'')"
    by (simp add: process_csv_def scan_is_lazy)
  ultimately show ?thesis by simp
next
  case (Some col)
  then have "column_name \<in> fst ` set df"
    by (metis map_of_eq_None_iff option.distinct(1))
  moreover from plain_name_query [where fs = fs and file_path = file_path and k = k, OF assms] Some
  have "process_csv (polars_engine fs k) file_path column_name
          \<noteq> Inl (ValueError,
              ''Error: Column '' @ [squote] @ column_name @ [squote] @ '' not found in the file.'')"
    by (simp add: process_csv_def scan_is_lazy row_of_engine aggregate_def
        split: option.splits list.splits)
  ultimately show ?thesis by simp
qed

text \<open>
  C3 does not hold of the code for every name. The help text of \<^verbatim>\<open>-c\<close> and the message
  of line 52 take the argument for a name, but \<^verbatim>\<open>pl.col\<close> reads it as a pattern. No
  column of \<^verbatim>\<open>numbers.csv\<close> is named \<^verbatim>\<open>^amount$\<close> or \<^verbatim>\<open>^zzz$\<close>; for the first the
  run returns the statistics of the column \<^verbatim>\<open>amount\<close>, for the second it raises an
  error that is not the \<^verbatim>\<open>ValueError\<close> of a column that was not found.
\<close>

theorem pattern_name_not_reported:
  "example_fs ''numbers.csv''
     = Table [(''amount'', [Num (Finite 10), Num (Finite 20), Num (Finite 30)])]
   \<and> ''^amount$'' \<notin> fst ` set [(''amount'', [Num (Finite 10), Num (Finite 20), Num (Finite 30)])]
   \<and> process_csv (polars_engine example_fs exact_kernels) ''numbers.csv'' ''^amount$''
       = Inr \<lparr>count = 3, min_val = Some (Finite 10), max_val = Some (Finite 30),
              sum_val = Some (Finite 60), mean = Some (Finite 20)\<rparr>
   \<and> ''^zzz$'' \<notin> fst ` set [(''amount'', [Num (Finite 10), Num (Finite 20), Num (Finite 30)])]
   \<and> process_csv (polars_engine example_fs exact_kernels) ''numbers.csv'' ''^zzz$''
       \<noteq> Inl (ValueError,
             ''Error: Column '' @ [squote] @ ''^zzz$'' @ [squote] @ '' not found in the file.'')"
  by (simp add: process_csv_def engine_defs example_fs_def kernel_defs)

section \<open>A missing file\<close>

text \<open>
  \<^verbatim>\<open>process_csv\<close> raises \<^verbatim>\<open>FileNotFoundError\<close> only when the scan raises it (or the
  call of line 58 does), and a lazy scan raises nothing.
\<close>

lemma file_not_found_only_from_scan:
  "(\<exists>m. process_csv pl file_path column_name = Inl (FileNotFoundError, m))
     = ((\<exists>m. scan_csv pl file_path = Inl (FileNotFoundError, m))
        \<or> (\<exists>lf stats_df m. scan_csv pl file_path = Inr lf
              \<and> select_collect pl lf column_name = Inr stats_df
              \<and> row_named pl stats_df 0 = Inl (FileNotFoundError, m)))"
  by (auto simp: process_csv_def split: sum.splits if_splits)

lemma lazy_scan_never_file_not_found:
  "process_csv (polars_engine fs k) file_path column_name \<noteq> Inl (FileNotFoundError, m)"
  by (auto simp: process_csv_def scan_is_lazy row_of_engine split: sum.splits if_splits list.splits)

text \<open>
  C4 does not hold of the code. The handler of lines 32-33 is written for a scan that
  opens the file, but the scan is lazy, as the comment of lines 28-29 says: for the path
  \<^verbatim>\<open>absent.csv\<close>, which leads to no file, the scan returns, the query fails when it
  opens the file, and line 54 raises \<^verbatim>\<open>RuntimeError\<close>, the generic error, not
  \<^verbatim>\<open>FileNotFoundError\<close>.
\<close>

theorem missing_file_is_runtime_error:
  "example_fs ''absent.csv'' = NoFile
   \<and> scan_csv (polars_engine example_fs exact_kernels) ''absent.csv'' = Inr ''absent.csv''
   \<and> process_csv (polars_engine example_fs exact_kernels) ''absent.csv'' ''amount''
       = Inl (RuntimeError,
           ''Error processing data with Polars: No such file or directory (os error 2): absent.csv'')"
  by (simp add: process_csv_def engine_defs example_fs_def)

section \<open>The statistics of a column\<close>

lemma process_csv_on_table:
  assumes "fs file_path = Table df" and "plain_name column_name"
    and "map_of df column_name = Some col"
  shows "process_csv (polars_engine fs k) file_path column_name =
     (if list_ex is_text col
      then Inl (RuntimeError,
             ''Error processing data with Polars: '' @ failure_text k (FailedCast column_name))
      else Inr \<lparr>count = agg_count col,
                min_val = agg_min k (map cast_cell col),
                max_val = agg_max k (map cast_cell col),
                sum_val = agg_sum k (map cast_cell col),
                mean = agg_mean k (map cast_cell col)\<rparr>)"
  using plain_name_query [where fs = fs and file_path = file_path and k = k, OF assms(1,2)]
    assms(3)
  by (simp add: process_csv_def scan_is_lazy row_of_engine aggregate_def cast_float64_def)

lemma process_csv_returns_column:
  assumes "process_csv (polars_engine fs k) file_path column_name = Inr stats"
  shows "\<exists>col. \<not> list_ex is_text col
           \<and> stats = \<lparr>count = agg_count col,
                       min_val = agg_min k (map cast_cell col),
                       max_val = agg_max k (map cast_cell col),
                       sum_val = agg_sum k (map cast_cell col),
                       mean = agg_mean k (map cast_cell col)\<rparr>"
proof -
  from assms obtain stats_df r where
    q: "select_collect (polars_engine fs k) file_path column_name = Inr stats_df"
    and r: "row_named (polars_engine fs k) stats_df 0 = Inr r"
    and s: "stats = \<lparr>count = row_count r, min_val = row_min r, max_val = row_max r,
                      sum_val = row_sum r, mean = row_mean r\<rparr>"
    by (auto simp: process_csv_def scan_is_lazy split: sum.splits if_splits)
  from q obtain cols where a: "aggregate k column_name cols = Inr stats_df"
    by (auto simp: polars_engine_def polars_select_collect_def
        split: file_entry.splits sum.splits)
  from r obtain rs where d: "stats_df = r # rs"
    by (auto simp: row_of_engine split: list.splits)
  from a d obtain col where
    t: "\<not> list_ex is_text col"
    and v: "r = \<lparr>row_count = agg_count col,
                  row_min = agg_min k (map cast_cell col),
                  row_max = agg_max k (map cast_cell col),
                  row_sum = agg_sum k (map cast_cell col),
                  row_mean = agg_mean k (map cast_cell col)\<rparr>"
    by (auto simp: aggregate_def cast_float64_def split: list.splits option.splits if_splits)
  from s t v show ?thesis by auto
qed

lemma length_numeric_values:
  "\<not> list_ex is_text col \<Longrightarrow>
   length (numeric_values col) = length (filter (\<lambda>x. x \<noteq> Null) col)"
proof (induction col)
  case Nil
  show ?case by (simp add: numeric_values_def drop_nulls_def)
next
  case (Cons x xs)
  then show ?case
    by (cases x) (simp_all add: numeric_values_def drop_nulls_def)
qed

text \<open>
  C1, as the code has it, for a plain column name that the table has. The cast of lines
  41-44 is strict, so a column with an entry that is not null and does not convert makes
  the whole query fail: \<^verbatim>\<open>process_csv\<close> raises \<^verbatim>\<open>RuntimeError\<close> and returns nothing,
  as for the column \<^verbatim>\<open>10, abc, 30\<close>. When every entry that is not null converts, the
  count is the number of entries that are not null, and the minimum, maximum, sum and
  mean are the engine's reductions over the converted values of exactly those entries
  (absent, or for the sum the engine's empty sum, when there is none).
\<close>

theorem stats_of_column:
  assumes "fs file_path = Table df" and "plain_name column_name"
    and "map_of df column_name = Some col"
  shows "(\<not> list_ex is_text col \<longrightarrow>
            process_csv (polars_engine fs k) file_path column_name =
              Inr \<lparr>count = int (length (filter (\<lambda>x. x \<noteq> Null) col)),
                   min_val = (if numeric_values col = [] then None
                              else Some (f_min k (numeric_values col))),
                   max_val = (if numeric_values col = [] then None
                              else Some (f_max k (numeric_values col))),
                   sum_val = (if numeric_values col = [] then empty_sum k
                              else Some (f_sum k (numeric_values col))),
                   mean = (if numeric_values col = [] then None
                           else Some (f_mean k (numeric_values col)))\<rparr>
            \<and> length (numeric_values col) = length (filter (\<lambda>x. x \<noteq> Null) col))
    \<and> (list_ex is_text col \<longrightarrow>
            process_csv (polars_engine fs k) file_path column_name =
              Inl (RuntimeError,
                ''Error processing data with Polars: ''
                  @ failure_text k (FailedCast column_name)))"
  using process_csv_on_table [where fs = fs and file_path = file_path and k = k, OF assms]
    length_numeric_values [of col]
  by (simp add: agg_count_def agg_min_def agg_max_def agg_sum_def agg_mean_def
      numeric_values_def)

theorem stats_of_column_witness:
  "example_fs ''numbers.csv''
     = Table [(''amount'', [Num (Finite 10), Num (Finite 20), Num (Finite 30)])]
   \<and> plain_name ''amount''
   \<and> map_of [(''amount'', [Num (Finite 10), Num (Finite 20), Num (Finite 30)])] ''amount''
       = Some [Num (Finite 10), Num (Finite 20), Num (Finite 30)]
   \<and> \<not> list_ex is_text [Num (Finite 10), Num (Finite 20), Num (Finite 30)]
   \<and> process_csv (polars_engine example_fs exact_kernels) ''numbers.csv'' ''amount''
       = Inr \<lparr>count = 3, min_val = Some (Finite 10), max_val = Some (Finite 30),
              sum_val = Some (Finite 60), mean = Some (Finite 20)\<rparr>
   \<and> example_fs ''mixed.csv''
       = Table [(''amount'', [Num (Finite 10), Text ''abc'', Num (Finite 30)])]
   \<and> list_ex is_text [Num (Finite 10), Text ''abc'', Num (Finite 30)]
   \<and> process_csv (polars_engine example_fs exact_kernels) ''mixed.csv'' ''amount''
       = Inl (RuntimeError,
           ''Error processing data with Polars: ''
             @ failure_text exact_kernels (FailedCast ''amount''))"
proof -
  have f1: "example_fs ''numbers.csv''
     = Table [(''amount'', [Num (Finite 10), Num (Finite 20), Num (Finite 30)])]"
    by (simp add: example_fs_def)
  have p: "plain_name ''amount''"
    by (simp add: plain_name_def is_regex_def)
  have c1: "map_of [(''amount'', [Num (Finite 10), Num (Finite 20), Num (Finite 30)])] ''amount''
       = Some [Num (Finite 10), Num (Finite 20), Num (Finite 30)]"
    by simp
  have f2: "example_fs ''mixed.csv''
       = Table [(''amount'', [Num (Finite 10), Text ''abc'', Num (Finite 30)])]"
    by (simp add: example_fs_def)
  have c2: "map_of [(''amount'', [Num (Finite 10), Text ''abc'', Num (Finite 30)])] ''amount''
       = Some [Num (Finite 10), Text ''abc'', Num (Finite 30)]"
    by simp
  from stats_of_column
         [where fs = example_fs and file_path = "''numbers.csv''" and k = exact_kernels,
          OF f1 p c1]
       stats_of_column
         [where fs = example_fs and file_path = "''mixed.csv''" and k = exact_kernels,
          OF f2 p c2]
       f1 f2 p
  show ?thesis
    by (simp add: numeric_values_def drop_nulls_def kernel_defs)
qed

text \<open>
  The example of C1: the column \<^verbatim>\<open>10, abc, 30\<close> gives no statistics at all, and so
  not the count 3 with minimum 10, maximum 30, sum 40 and mean 20.
\<close>

theorem mixed_column_counterexample:
  "example_fs ''mixed.csv''
     = Table [(''amount'', [Num (Finite 10), Text ''abc'', Num (Finite 30)])]
   \<and> process_csv (polars_engine example_fs exact_kernels) ''mixed.csv'' ''amount''
       = Inl (RuntimeError,
           ''Error processing data with Polars: ''
             @ failure_text exact_kernels (FailedCast ''amount''))
   \<and> process_csv (polars_engine example_fs exact_kernels) ''mixed.csv'' ''amount''
       \<noteq> Inr \<lparr>count = 3, min_val = Some (Finite 10), max_val = Some (Finite 30),
              sum_val = Some (Finite 40), mean = Some (Finite 20)\<rparr>"
  by (simp add: process_csv_def engine_defs example_fs_def)

text \<open>
  A column of \<open>N\<close> rows that are all numbers has the count \<open>N\<close>, and its sum and mean
  are the engine's reductions over the same \<open>N\<close> values. How the sum and the mean relate
  is a matter of the engine's floating-point arithmetic.
\<close>

lemma count_of_numeric_column:
  assumes "fs file_path = Table df" and "plain_name column_name"
    and "map_of df column_name = Some col"
    and "list_all (\<lambda>x. \<not> is_text x \<and> x \<noteq> Null) col" and "col \<noteq> []"
  shows "\<exists>stats. process_csv (polars_engine fs k) file_path column_name = Inr stats
           \<and> count stats = int (length col)
           \<and> length (numeric_values col) = length col
           \<and> sum_val stats = Some (f_sum k (numeric_values col))
           \<and> mean stats = Some (f_mean k (numeric_values col))"
proof -
  have t: "\<not> list_ex is_text col"
    using assms(4) by (induction col) auto
  have n: "filter (\<lambda>x. x \<noteq> Null) col = col"
    using assms(4) by (induction col) auto
  have l: "length (numeric_values col) = length col"
    using length_numeric_values [OF t] n by simp
  with assms(5) have e: "numeric_values col \<noteq> []"
    by (metis length_0_conv)
  from process_csv_on_table
         [where fs = fs and file_path = file_path and k = k, OF assms(1,2,3)] t n l e
  show ?thesis
    by (simp add: agg_count_def agg_sum_def agg_mean_def numeric_values_def)
qed

section \<open>Minimum, maximum and mean together\<close>

text \<open>
  C10, as the code has it. In every \<^verbatim>\<open>SelectedStats\<close> that \<^verbatim>\<open>process_csv\<close> returns,
  minimum, maximum and mean are absent together or present together, and they are absent
  exactly when the count is 0. Nothing is said of their order.
\<close>

theorem absent_together:
  assumes "process_csv (polars_engine fs k) file_path column_name = Inr stats"
  shows "(min_val stats = None) = (max_val stats = None)
    \<and> (max_val stats = None) = (mean stats = None)
    \<and> (mean stats = None) = (count stats = 0)"
proof -
  from process_csv_returns_column [OF assms]
  obtain col where n: "\<not> list_ex is_text col"
    and s: "stats = \<lparr>count = agg_count col,
                      min_val = agg_min k (map cast_cell col),
                      max_val = agg_max k (map cast_cell col),
                      sum_val = agg_sum k (map cast_cell col),
                      mean = agg_mean k (map cast_cell col)\<rparr>"
    by blast
  have l: "(numeric_values col = []) = (length (filter (\<lambda>x. x \<noteq> Null) col) = 0)"
    using length_numeric_values [OF n] by (metis length_0_conv)
  from s l show ?thesis
    by (auto simp: agg_count_def agg_min_def agg_max_def agg_mean_def numeric_values_def)
qed

theorem absent_together_witness:
  "process_csv (polars_engine example_fs exact_kernels) ''numbers.csv'' ''amount''
     = Inr \<lparr>count = 3, min_val = Some (Finite 10), max_val = Some (Finite 30),
            sum_val = Some (Finite 60), mean = Some (Finite 20)\<rparr>
   \<and> process_csv (polars_engine example_fs exact_kernels) ''blank.csv'' ''amount''
     = Inr \<lparr>count = 0, min_val = None, max_val = None, sum_val = Some (Finite 0),
            mean = None\<rparr>
   \<and> ((Some (Finite 10) = (None :: float64 option)) = ((3 :: int) = 0))
   \<and> (((None :: float64 option) = None) = ((0 :: int) = 0))"
proof -
  have h1: "process_csv (polars_engine example_fs exact_kernels) ''numbers.csv'' ''amount''
     = Inr \<lparr>count = 3, min_val = Some (Finite 10), max_val = Some (Finite 30),
            sum_val = Some (Finite 60), mean = Some (Finite 20)\<rparr>"
    by (simp add: process_csv_def engine_defs example_fs_def kernel_defs)
  have h2: "process_csv (polars_engine example_fs exact_kernels) ''blank.csv'' ''amount''
     = Inr \<lparr>count = 0, min_val = None, max_val = None, sum_val = Some (Finite 0),
            mean = None\<rparr>"
    by (simp add: process_csv_def engine_defs example_fs_def kernel_defs)
  from absent_together [OF h1] absent_together [OF h2] h1 h2 show ?thesis by simp
qed

text \<open>
  The order that C10 states, minimum below mean below maximum in Python's comparison of
  floats, fails for a column that holds a NaN: the mean is NaN, and NaN compares with
  nothing.
\<close>

theorem nan_column_counterexample:
  "example_fs ''nan.csv'' = Table [(''amount'', [Num NaN, Num (Finite 1)])]
   \<and> process_csv (polars_engine example_fs exact_kernels) ''nan.csv'' ''amount''
       = Inr \<lparr>count = 2, min_val = Some (Finite 1), max_val = Some (Finite 1),
              sum_val = Some NaN, mean = Some NaN\<rparr>
   \<and> \<not> (le_f64 (Finite 1) NaN \<and> le_f64 NaN (Finite 1))"
  by (simp add: process_csv_def engine_defs example_fs_def kernel_defs)

section \<open>What a run prints\<close>

lemma is_digit_digit_char: "d < 10 \<Longrightarrow> is_digit (digit_char d)"
proof -
  assume "d < 10"
  then have "d = 0 \<or> d = 1 \<or> d = 2 \<or> d = 3 \<or> d = 4 \<or> d = 5 \<or> d = 6 \<or> d = 7 \<or> d = 8 \<or> d = 9"
    by arith
  then show ?thesis
    by (auto simp: is_digit_def digit_char_def)
qed

lemma show_nat_digits: "show_nat n \<noteq> [] \<and> list_all is_digit (show_nat n)"
proof (induction n rule: show_nat.induct)
  case (1 n)
  show ?case
  proof (cases "n < 10")
    case True
    then show ?thesis
      by (subst (1 2) show_nat.simps) (simp add: is_digit_digit_char)
  next
    case False
    with "1" show ?thesis
      by (subst (1 2) show_nat.simps) (simp add: is_digit_digit_char)
  qed
qed

lemma is_digit_not_minus: "is_digit c \<Longrightarrow> c \<noteq> CHR ''-''"
  by (auto simp: is_digit_def)

lemma is_plain_integer_digits:
  "ds \<noteq> [] \<Longrightarrow> list_all is_digit ds \<Longrightarrow> is_plain_integer ds"
  by (cases ds) (auto simp: is_plain_integer_def is_digit_not_minus)

lemma is_plain_integer_minus:
  "ds \<noteq> [] \<Longrightarrow> list_all is_digit ds \<Longrightarrow> is_plain_integer (CHR ''-'' # ds)"
  by (simp add: is_plain_integer_def)

lemma is_plain_integer_str_int: "is_plain_integer (str_int i)"
  using show_nat_digits
  by (simp add: str_int_def is_plain_integer_digits is_plain_integer_minus)

lemma frac4_digits: "length (frac4 m) = 4 \<and> list_all is_digit (frac4 m)"
  by (simp add: frac4_def is_digit_digit_char)

lemma four_decimals_parts:
  assumes "is_plain_integer ip" and "length fr = 4" and "list_all is_digit fr"
  shows "four_decimals (ip @ ''.'' @ fr)"
proof -
  have "ip \<noteq> []"
    using assms(1) by (auto simp: is_plain_integer_def)
  then have "0 < length ip" by simp
  with assms show ?thesis
    by (simp add: four_decimals_def Let_def nth_append)
qed

lemma four_decimals_format_4f: "four_decimals (format_4f (Finite q))"
proof -
  define n where "n = nat (round_half_even (\<bar>q\<bar> * 10000))"
  have ip: "is_plain_integer ((if q < 0 then ''-'' else []) @ show_nat (n div 10000))"
    using show_nat_digits [of "n div 10000"]
    by (simp add: is_plain_integer_digits is_plain_integer_minus)
  from four_decimals_parts [OF ip] frac4_digits [of "n mod 10000"]
  have "four_decimals (((if q < 0 then ''-'' else []) @ show_nat (n div 10000))
          @ ''.'' @ frac4 (n mod 10000))"
    by blast
  then show ?thesis
    by (simp add: n_def Let_def)
qed

lemma well_rendered_format_opt: "well_rendered val (format_opt val)"
proof (cases val)
  case None
  then show ?thesis by (simp add: well_rendered_def format_opt_def)
next
  case (Some v)
  then show ?thesis
    using four_decimals_format_4f
    by (cases v) (simp_all add: well_rendered_def format_opt_def del: format_4f.simps(1))
qed

lemma main_success:
  "process_csv pl file_path column_name = Inr stats \<Longrightarrow>
   main pl file_path (Some column_name) = Exited 0 (report column_name stats) []"
  by (simp add: main_def Let_def report_def print_def)

lemma main_failure:
  "process_csv pl file_path column_name = Inl e \<Longrightarrow>
   fst e = FileNotFoundError \<or> fst e = ValueError \<or> fst e = RuntimeError \<Longrightarrow>
   main pl file_path (Some column_name) = Exited 1 [] (snd e @ [newline])"
  by (auto simp: main_def Let_def print_def)

lemma main_unhandled:
  "process_csv pl file_path column_name = Inl e \<Longrightarrow>
   fst e \<noteq> FileNotFoundError \<Longrightarrow> fst e \<noteq> ValueError \<Longrightarrow> fst e \<noteq> RuntimeError \<Longrightarrow>
   main pl file_path (Some column_name) = Unhandled e"
  by (simp add: main_def)

lemma single_line_iff: "single_line (m @ [newline]) = (newline \<notin> set m)"
  by (simp add: single_line_def)

lemmas text_defs =
  report_def format_opt_def str_int_def show_nat.simps digit_char_def round_half_even_def
  frac4_def four_decimals_def is_plain_integer_def is_digit_def single_line_def

text \<open>
  C5, as the code has it. A successful run prints the seven lines of the report and
  nothing on standard error. The count is written as a plain integer; each of the four
  floats is written as \<^verbatim>\<open>N/A\<close> when absent and with exactly four digits after the
  decimal point when present and finite; an infinite value or a NaN is written as the
  word \<^verbatim>\<open>inf\<close>, \<^verbatim>\<open>-inf\<close> or \<^verbatim>\<open>nan\<close>.
\<close>

theorem main_renders_stats:
  assumes "process_csv pl file_path column_name = Inr stats"
  shows "main pl file_path (Some column_name) = Exited 0 (report column_name stats) []
    \<and> is_plain_integer (str_int (count stats))
    \<and> well_rendered (min_val stats) (format_opt (min_val stats))
    \<and> well_rendered (max_val stats) (format_opt (max_val stats))
    \<and> well_rendered (sum_val stats) (format_opt (sum_val stats))
    \<and> well_rendered (mean stats) (format_opt (mean stats))"
  using main_success [OF assms] is_plain_integer_str_int well_rendered_format_opt
  by simp

theorem main_renders_stats_witness:
  "process_csv (polars_engine example_fs exact_kernels) ''numbers.csv'' ''amount''
     = Inr \<lparr>count = 3, min_val = Some (Finite 10), max_val = Some (Finite 30),
            sum_val = Some (Finite 60), mean = Some (Finite 20)\<rparr>
   \<and> main (polars_engine example_fs exact_kernels) ''numbers.csv'' (Some ''amount'')
       = Exited 0
           (''Output for python-polars'' @ [newline]
            @ ''--- Statistics for '' @ [squote] @ ''amount'' @ [squote] @ '' ---'' @ [newline]
            @ ''Count: 3'' @ [newline]
            @ ''Min:   10.0000'' @ [newline]
            @ ''Max:   30.0000'' @ [newline]
            @ ''Sum:   60.0000'' @ [newline]
            @ ''Mean:  20.0000'' @ [newline])
           []
   \<and> is_plain_integer ''3''
   \<and> well_rendered (Some (Finite 10)) ''10.0000''"
proof -
  have h: "process_csv (polars_engine example_fs exact_kernels) ''numbers.csv'' ''amount''
     = Inr \<lparr>count = 3, min_val = Some (Finite 10), max_val = Some (Finite 30),
            sum_val = Some (Finite 60), mean = Some (Finite 20)\<rparr>"
    by (simp add: process_csv_def engine_defs example_fs_def kernel_defs)
  from main_renders_stats [OF h] h show ?thesis
    by (simp add: text_defs)
qed

text \<open>
  The statement of C5 for every float that is present fails at an infinite one: the
  column \<^verbatim>\<open>1, inf\<close> is read, the run succeeds, and three of its lines show \<^verbatim>\<open>inf\<close>,
  which has no digit after a decimal point.
\<close>

theorem infinite_value_counterexample:
  "process_csv (polars_engine example_fs exact_kernels) ''inf.csv'' ''amount''
     = Inr \<lparr>count = 2, min_val = Some (Finite 1), max_val = Some PosInf,
            sum_val = Some PosInf, mean = Some PosInf\<rparr>
   \<and> main (polars_engine example_fs exact_kernels) ''inf.csv'' (Some ''amount'')
       = Exited 0
           (''Output for python-polars'' @ [newline]
            @ ''--- Statistics for '' @ [squote] @ ''amount'' @ [squote] @ '' ---'' @ [newline]
            @ ''Count: 2'' @ [newline]
            @ ''Min:   1.0000'' @ [newline]
            @ ''Max:   inf'' @ [newline]
            @ ''Sum:   inf'' @ [newline]
            @ ''Mean:  inf'' @ [newline])
           []
   \<and> format_opt (Some PosInf) = ''inf''
   \<and> \<not> four_decimals ''inf''"
  by (simp add: main_def Let_def print_def process_csv_def engine_defs example_fs_def kernel_defs
      text_defs)

section \<open>How a run ends\<close>

text \<open>
  C7, as the code has it. A run whose \<^verbatim>\<open>process_csv\<close> returns ends with status 0, the
  whole report on standard output and nothing on standard error. A run whose
  \<^verbatim>\<open>process_csv\<close> raises an error of one of the three classes of line 109 ends with
  status 1, nothing on standard output, and on standard error the message of the error
  followed by a line break: one line exactly when the message holds no line break of its
  own. Without \<^verbatim>\<open>-c\<close> the column is \<^verbatim>\<open>Amount Received\<close>. What happens to an
  exception of any other class, which line 109 does not catch, is left open here.
\<close>

theorem main_exit_status:
  shows "(process_csv pl file_path column_name = Inr stats \<longrightarrow>
            main pl file_path (Some column_name) = Exited 0 (report column_name stats) [])
    \<and> (process_csv pl file_path column_name = Inl e
          \<and> (fst e = FileNotFoundError \<or> fst e = ValueError \<or> fst e = RuntimeError) \<longrightarrow>
            main pl file_path (Some column_name) = Exited 1 [] (snd e @ [newline])
            \<and> single_line (snd e @ [newline]) = (newline \<notin> set (snd e)))
    \<and> main pl file_path None = main pl file_path (Some ''Amount Received'')"
  using main_success [of pl file_path column_name stats]
    main_failure [of pl file_path column_name e] single_line_iff [of "snd e"]
  by (simp add: main_def)

theorem main_exit_status_witness:
  "process_csv (polars_engine example_fs exact_kernels) ''numbers.csv'' ''amount''
     = Inr \<lparr>count = 3, min_val = Some (Finite 10), max_val = Some (Finite 30),
            sum_val = Some (Finite 60), mean = Some (Finite 20)\<rparr>
   \<and> main (polars_engine example_fs exact_kernels) ''numbers.csv'' (Some ''amount'')
       = Exited 0
           (''Output for python-polars'' @ [newline]
            @ ''--- Statistics for '' @ [squote] @ ''amount'' @ [squote] @ '' ---'' @ [newline]
            @ ''Count: 3'' @ [newline]
            @ ''Min:   10.0000'' @ [newline]
            @ ''Max:   30.0000'' @ [newline]
            @ ''Sum:   60.0000'' @ [newline]
            @ ''Mean:  20.0000'' @ [newline])
           []
   \<and> process_csv (polars_engine example_fs exact_kernels) ''numbers.csv'' ''price''
       = Inl (ValueError,
           ''Error: Column '' @ [squote] @ ''price'' @ [squote] @ '' not found in the file.'')
   \<and> main (polars_engine example_fs exact_kernels) ''numbers.csv'' (Some ''price'')
       = Exited 1 []
           (''Error: Column '' @ [squote] @ ''price'' @ [squote] @ '' not found in the file.''
            @ [newline])
   \<and> single_line
        (''Error: Column '' @ [squote] @ ''price'' @ [squote] @ '' not found in the file.''
         @ [newline])"
proof -
  have h1: "process_csv (polars_engine example_fs exact_kernels) ''numbers.csv'' ''amount''
     = Inr \<lparr>count = 3, min_val = Some (Finite 10), max_val = Some (Finite 30),
            sum_val = Some (Finite 60), mean = Some (Finite 20)\<rparr>"
    by (simp add: process_csv_def engine_defs example_fs_def kernel_defs)
  have h2: "process_csv (polars_engine example_fs exact_kernels) ''numbers.csv'' ''price''
       = Inl (ValueError,
           ''Error: Column '' @ [squote] @ ''price'' @ [squote] @ '' not found in the file.'')"
    by (simp add: process_csv_def engine_defs example_fs_def)
  from main_exit_status
         [of "polars_engine example_fs exact_kernels" "''numbers.csv''" "''amount''"
             "\<lparr>count = 3, min_val = Some (Finite 10), max_val = Some (Finite 30),
               sum_val = Some (Finite 60), mean = Some (Finite 20)\<rparr>"]
       main_exit_status
         [of "polars_engine example_fs exact_kernels" "''numbers.csv''" "''price''" _
             "(ValueError,
               ''Error: Column '' @ [squote] @ ''price'' @ [squote] @ '' not found in the file.'')"]
       h1 h2
  show ?thesis
    by (simp add: text_defs)
qed

text \<open>
  The single line of C7 fails when the message holds a line break, as it does for a
  missing column whose requested name holds one: standard error then shows two lines.
\<close>

theorem line_break_counterexample:
  "main (polars_engine example_fs exact_kernels) ''numbers.csv''
       (Some (''a'' @ [newline] @ ''b''))
     = Exited 1 []
         (''Error: Column '' @ [squote] @ ''a'' @ [newline] @ ''b'' @ [squote]
          @ '' not found in the file.'' @ [newline])
   \<and> \<not> single_line
         (''Error: Column '' @ [squote] @ ''a'' @ [newline] @ ''b'' @ [squote]
          @ '' not found in the file.'' @ [newline])"
  by (simp add: main_def Let_def print_def process_csv_def engine_defs example_fs_def single_line_def)

end
